theory Spec2Isabelle
  imports Main
begin

section \<open>Source and destination shapes\<close>

text \<open>
  The three runners (\<^verbatim>\<open>sync.mjs\<close>, \<^verbatim>\<open>sync-auto.mjs\<close>, \<^verbatim>\<open>sync-github.js\<close>) read the
  Simkl snapshot as parsed JSON. A field that the code reads through \<^verbatim>\<open>?.\<close> or a
  conditional (\<^verbatim>\<open>watched.movies\<close>, \<^verbatim>\<open>show.seasons\<close>, \<^verbatim>\<open>season.episodes\<close>) is optional
  here; a field that the code dereferences without a guard (\<^verbatim>\<open>movie.movie.ids\<close>,
  \<^verbatim>\<open>show.show.ids\<close>) is a plain field. A timestamp is a string or is missing
  (\<open>None\<close> stands for \<^verbatim>\<open>undefined\<close> and \<^verbatim>\<open>null\<close>); identifiers are copied as they are.
\<close>

record ids =
  imdb :: "string option"
  tmdb :: "int option"

record media =
  media_ids :: ids

record movie_entry =
  movie_last_watched_at :: "string option"
  movie_movie :: media

record episode =
  episode_number :: int
  episode_last_watched_at :: "string option"

record season =
  season_number :: int
  season_episodes :: "episode list option"

record show_entry =
  show_last_watched_at :: "string option"
  show_show :: media
  show_seasons :: "season list option"

record snapshot =
  watched_movies :: "movie_entry list option"
  watched_shows :: "show_entry list option"
  watched_anime :: "show_entry list option"

record trakt_movie =
  tm_watched_at :: "string option"
  tm_ids :: ids

record trakt_episode =
  te_number :: int
  te_watched_at :: "string option"

record trakt_season =
  tse_number :: int
  tse_episodes :: "trakt_episode list"

record trakt_show =
  ts_watched_at :: "string option"
  ts_ids :: ids
  ts_seasons :: "trakt_season list"

record trakt_object =
  t_movies :: "trakt_movie list"
  t_shows :: "trakt_show list"

section \<open>JavaScript truthiness of a timestamp\<close>

text \<open>
  \<^verbatim>\<open>!x\<close> is true for \<^verbatim>\<open>undefined\<close>, \<^verbatim>\<open>null\<close> and the empty string; \<^verbatim>\<open>a || b\<close> is
  \<^verbatim>\<open>a\<close> when \<^verbatim>\<open>a\<close> is truthy and \<^verbatim>\<open>b\<close> otherwise.
\<close>

definition truthy :: "string option \<Rightarrow> bool" where
  "truthy t = (case t of None \<Rightarrow> False | Some s \<Rightarrow> s \<noteq> [])"

definition js_or :: "string option \<Rightarrow> string option \<Rightarrow> string option" where
  "js_or a b = (if truthy a then a else b)"

section \<open>The normalizer of sync.mjs\<close>

text \<open>\<^verbatim>\<open>sync.mjs\<close> lines 137-146: the callback of \<^verbatim>\<open>watched.movies?.forEach\<close>.\<close>

definition push_movie :: "trakt_object \<Rightarrow> movie_entry \<Rightarrow> trakt_object" where
  "push_movie t movie =
     (if \<not> truthy (movie_last_watched_at movie) then t
      else t\<lparr>t_movies := t_movies t @
             [\<lparr>tm_watched_at = movie_last_watched_at movie,
               tm_ids = \<lparr>imdb = imdb (media_ids (movie_movie movie)),
                         tmdb = tmdb (media_ids (movie_movie movie))\<rparr>\<rparr>]\<rparr>)"

definition process_movies :: "snapshot \<Rightarrow> trakt_object \<Rightarrow> trakt_object" where
  "process_movies watched t =
     (case watched_movies watched of None \<Rightarrow> t | Some ms \<Rightarrow> foldl push_movie t ms)"

text \<open>
  \<^verbatim>\<open>sync.mjs\<close> lines 151-157: the seasons of a show. The mapped episodes are object
  literals, so \<^verbatim>\<open>filter(ep => ep)\<close> keeps each of them.
\<close>

definition show_seasons_of :: "show_entry \<Rightarrow> trakt_season list" where
  "show_seasons_of show =
     (case show_seasons show of
        None \<Rightarrow> []
      | Some ss \<Rightarrow>
          filter (\<lambda>season. length (tse_episodes season) > 0)
            (map (\<lambda>season.
                    \<lparr>tse_number = season_number season,
                     tse_episodes =
                       (case season_episodes season of
                          None \<Rightarrow> []
                        | Some es \<Rightarrow>
                            filter (\<lambda>ep. True)
                              (map (\<lambda>episode.
                                      \<lparr>te_number = episode_number episode,
                                       te_watched_at =
                                         js_or (episode_last_watched_at episode)
                                               (show_last_watched_at show)\<rparr>) es))\<rparr>) ss))"

text \<open>\<^verbatim>\<open>sync.mjs\<close> lines 149-169: the callback of \<^verbatim>\<open>watched.shows?.forEach\<close>.\<close>

definition push_show :: "trakt_object \<Rightarrow> show_entry \<Rightarrow> trakt_object" where
  "push_show t show =
     (if \<not> truthy (show_last_watched_at show) then t
      else let seasons = show_seasons_of show in
        if length seasons > 0
        then t\<lparr>t_shows := t_shows t @
               [\<lparr>ts_watched_at = show_last_watched_at show,
                 ts_ids = \<lparr>imdb = imdb (media_ids (show_show show)),
                           tmdb = tmdb (media_ids (show_show show))\<rparr>,
                 ts_seasons = seasons\<rparr>]\<rparr>
        else t)"

definition process_shows :: "snapshot \<Rightarrow> trakt_object \<Rightarrow> trakt_object" where
  "process_shows watched t =
     (case watched_shows watched of None \<Rightarrow> t | Some ss \<Rightarrow> foldl push_show t ss)"

text \<open>\<^verbatim>\<open>sync.mjs\<close> lines 174-180: the seasons of an anime entry.\<close>

definition anime_seasons_of :: "show_entry \<Rightarrow> trakt_season list" where
  "anime_seasons_of anime =
     (case show_seasons anime of
        None \<Rightarrow> []
      | Some ss \<Rightarrow>
          filter (\<lambda>season. length (tse_episodes season) > 0)
            (map (\<lambda>season.
                    \<lparr>tse_number = season_number season,
                     tse_episodes =
                       (case season_episodes season of
                          None \<Rightarrow> []
                        | Some es \<Rightarrow>
                            filter (\<lambda>ep. True)
                              (map (\<lambda>episode.
                                      \<lparr>te_number = episode_number episode,
                                       te_watched_at =
                                         js_or (episode_last_watched_at episode)
                                               (show_last_watched_at anime)\<rparr>) es))\<rparr>) ss))"

text \<open>\<^verbatim>\<open>sync.mjs\<close> lines 172-192: the callback of \<^verbatim>\<open>watched.anime?.forEach\<close>.\<close>

definition push_anime :: "trakt_object \<Rightarrow> show_entry \<Rightarrow> trakt_object" where
  "push_anime t anime =
     (if \<not> truthy (show_last_watched_at anime) then t
      else let seasons = anime_seasons_of anime in
        if length seasons > 0
        then t\<lparr>t_shows := t_shows t @
               [\<lparr>ts_watched_at = show_last_watched_at anime,
                 ts_ids = \<lparr>imdb = imdb (media_ids (show_show anime)),
                           tmdb = tmdb (media_ids (show_show anime))\<rparr>,
                 ts_seasons = seasons\<rparr>]\<rparr>
        else t)"

definition process_anime :: "snapshot \<Rightarrow> trakt_object \<Rightarrow> trakt_object" where
  "process_anime watched t =
     (case watched_anime watched of None \<Rightarrow> t | Some as \<Rightarrow> foldl push_anime t as)"

text \<open>\<^verbatim>\<open>sync.mjs\<close> lines 131-192: the payload built from a snapshot.\<close>

definition build_trakt_object :: "snapshot \<Rightarrow> trakt_object" where
  "build_trakt_object watched =
     process_anime watched
       (process_shows watched
          (process_movies watched \<lparr>t_movies = [], t_shows = []\<rparr>))"

section \<open>The normalizer of sync-auto.mjs\<close>

text \<open>
  \<^verbatim>\<open>sync-auto.mjs\<close> lines 140-176 process movies and shows with the code of
  \<^verbatim>\<open>sync.mjs\<close>, the optional chaining written as a conditional. The anime callback
  (lines 182-190) differs: each season receives \<^verbatim>\<open>anime.seasons.flatMap(...)\<close>, the
  episodes of all seasons of the entry.
\<close>

definition auto_anime_seasons_of :: "show_entry \<Rightarrow> trakt_season list" where
  "auto_anime_seasons_of anime =
     (case show_seasons anime of
        None \<Rightarrow> []
      | Some ss \<Rightarrow>
          filter (\<lambda>season. length (tse_episodes season) > 0)
            (map (\<lambda>season.
                    \<lparr>tse_number = season_number season,
                     tse_episodes =
                       (case show_seasons anime of
                          None \<Rightarrow> []
                        | Some ss' \<Rightarrow>
                            concat (map (\<lambda>season.
                              (case season_episodes season of
                                 None \<Rightarrow> []
                               | Some es \<Rightarrow>
                                   map (\<lambda>episode.
                                          \<lparr>te_number = episode_number episode,
                                           te_watched_at =
                                             js_or (episode_last_watched_at episode)
                                                   (show_last_watched_at anime)\<rparr>) es)) ss'))\<rparr>) ss))"

definition auto_push_anime :: "trakt_object \<Rightarrow> show_entry \<Rightarrow> trakt_object" where
  "auto_push_anime t anime =
     (if \<not> truthy (show_last_watched_at anime) then t
      else let seasons = auto_anime_seasons_of anime in
        if length seasons > 0
        then t\<lparr>t_shows := t_shows t @
               [\<lparr>ts_watched_at = show_last_watched_at anime,
                 ts_ids = \<lparr>imdb = imdb (media_ids (show_show anime)),
                           tmdb = tmdb (media_ids (show_show anime))\<rparr>,
                 ts_seasons = seasons\<rparr>]\<rparr>
        else t)"

definition auto_process_anime :: "snapshot \<Rightarrow> trakt_object \<Rightarrow> trakt_object" where
  "auto_process_anime watched t =
     (case watched_anime watched of None \<Rightarrow> t | Some as \<Rightarrow> foldl auto_push_anime t as)"

definition auto_build_trakt_object :: "snapshot \<Rightarrow> trakt_object" where
  "auto_build_trakt_object watched =
     auto_process_anime watched
       (process_shows watched
          (process_movies watched \<lparr>t_movies = [], t_shows = []\<rparr>))"

section \<open>The network, the files and the credentials\<close>

text \<open>
  A JSON document that a runner receives or stores: the token object of the destination,
  a watched snapshot, the result of a history submission, or an object of another shape.
\<close>

record tokens =
  access_token :: "string option"
  refresh_token :: "string option"
  token_rest :: "(string \<times> string) list"

record sync_added =
  added_movies :: "int option"
  added_episodes :: "int option"

record sync_result =
  added :: "sync_added option"

datatype json = TokensJson tokens | WatchedJson snapshot | ResultJson sync_result | OtherJson

text \<open>Reading a property that an object does not have gives \<^verbatim>\<open>undefined\<close>.\<close>

definition access_token_of :: "json \<Rightarrow> string option" where
  "access_token_of j = (case j of TokensJson t \<Rightarrow> access_token t | _ \<Rightarrow> None)"

definition refresh_token_of :: "json \<Rightarrow> string option" where
  "refresh_token_of j = (case j of TokensJson t \<Rightarrow> refresh_token t | _ \<Rightarrow> None)"

definition watched_of :: "json \<Rightarrow> snapshot" where
  "watched_of j =
     (case j of WatchedJson s \<Rightarrow> s
      | _ \<Rightarrow> \<lparr>watched_movies = None, watched_shows = None, watched_anime = None\<rparr>)"

definition added_of :: "json \<Rightarrow> sync_added option" where
  "added_of j = (case j of ResultJson r \<Rightarrow> added r | _ \<Rightarrow> None)"

text \<open>\<^verbatim>\<open>result.added?.movies || 0\<close> and \<^verbatim>\<open>result.added?.episodes || 0\<close>.\<close>

definition movies_added_of :: "json \<Rightarrow> int" where
  "movies_added_of j =
     (case added_of j of None \<Rightarrow> 0
      | Some a \<Rightarrow> (case added_movies a of None \<Rightarrow> 0 | Some n \<Rightarrow> n))"

definition episodes_added_of :: "json \<Rightarrow> int" where
  "episodes_added_of j =
     (case added_of j of None \<Rightarrow> 0
      | Some a \<Rightarrow> (case added_episodes a of None \<Rightarrow> 0 | Some n \<Rightarrow> n))"

text \<open>A template literal prints a missing value as \<^verbatim>\<open>undefined\<close>.\<close>

definition bearer :: "string option \<Rightarrow> string" where
  "bearer t = ''Bearer '' @ (case t of None \<Rightarrow> ''undefined'' | Some s \<Rightarrow> s)"

record config =
  simkl_client_id :: string
  trakt_client_id :: string
  trakt_client_secret :: string
  simkl_access_token :: string
  trakt_tokens :: json

record headers =
  h_content_type :: "string option"
  h_authorization :: "string option"
  h_trakt_api_version :: "string option"
  h_trakt_api_key :: "string option"
  h_simkl_api_key :: "string option"

record refresh_form =
  rf_refresh_token :: "string option"
  rf_client_id :: string
  rf_client_secret :: string
  rf_redirect_uri :: string
  rf_grant_type :: string

datatype req_body = PayloadBody trakt_object | RefreshBody refresh_form

record request =
  r_url :: string
  r_method :: "string option"
  r_headers :: headers
  r_body :: "req_body option"

text \<open>The \<^verbatim>\<open>options\<close> argument of \<^verbatim>\<open>traktRequest\<close>: its callers pass a method and a body.\<close>

record options =
  o_method :: "string option"
  o_body :: "req_body option"

record response =
  resp_status :: nat
  resp_status_text :: string
  resp_body :: "json option"

text \<open>\<^verbatim>\<open>response.ok\<close>: the status is in the range 200-299.\<close>

definition ok :: "response \<Rightarrow> bool" where
  "ok r = (200 \<le> resp_status r \<and> resp_status r \<le> 299)"

text \<open>A call of \<^verbatim>\<open>fetch\<close> rejects (no connection) or resolves to a response.\<close>

datatype reply = Rejected | Resp response

datatype error =
    ConfigMissing
  | NetworkError
  | SyntaxError
  | HttpError nat string
  | RefreshFailed
  | ConnectionTestFailed
  | SyncFailed nat
  | WriteFailed

datatype outcome = Completed int int | SubmitRejected nat string | NothingToSync

text \<open>The \<^verbatim>\<open>error\<close> text of a log entry: a status line or the message of an error.\<close>

datatype log_error = StatusLine nat string | Message error

record log_entry =
  le_timestamp :: string
  le_status :: string
  le_movies_added :: "int option"
  le_episodes_added :: "int option"
  le_error :: "log_error option"

text \<open>
  The log file \<^verbatim>\<open>logs/sync-history.json\<close>: it cannot be read, its text is not JSON, it
  holds a JSON array, or it holds JSON of another kind (an object, a number, a string,
  \<^verbatim>\<open>null\<close>).
\<close>

datatype log_file = Unreadable | NotJson | JsonArray "log_entry list" | JsonOther

text \<open>
  The world of a run: the replies that the coming calls of \<^verbatim>\<open>fetch\<close> receive, in
  order; the requests sent so far; the configuration file (\<open>None\<close> when it is missing
  or not JSON) and the log file, each with whether a write to it succeeds; the clock.
\<close>

record world =
  replies :: "reply list"
  sent :: "request list"
  config_file :: "config option"
  config_writable :: bool
  log_file :: log_file
  log_writable :: bool
  clock :: string

definition fetch :: "request \<Rightarrow> world \<Rightarrow> (error + response) \<times> world" where
  "fetch rq w =
     (case replies w of
        [] \<Rightarrow> (Inl NetworkError, w\<lparr>sent := sent w @ [rq]\<rparr>)
      | Rejected # rs \<Rightarrow> (Inl NetworkError, w\<lparr>replies := rs, sent := sent w @ [rq]\<rparr>)
      | Resp r # rs \<Rightarrow> (Inr r, w\<lparr>replies := rs, sent := sent w @ [rq]\<rparr>))"

definition simkl_url :: string where
  "simkl_url = ''https://api.simkl.com/sync/all-items/?extended=full&episode_watched_at=yes''"

definition token_url :: string where
  "token_url = ''https://api.trakt.tv/oauth/token''"

definition settings_url :: string where
  "settings_url = ''https://api.trakt.tv/users/settings''"

definition history_url :: string where
  "history_url = ''https://api.trakt.tv/sync/history''"

definition no_headers :: headers where
  "no_headers = \<lparr>h_content_type = None, h_authorization = None, h_trakt_api_version = None,
                  h_trakt_api_key = None, h_simkl_api_key = None\<rparr>"

section \<open>The runner of sync.mjs\<close>

definition loadConfig :: "world \<Rightarrow> config option" where
  "loadConfig w = config_file w"

definition saveConfig :: "config \<Rightarrow> world \<Rightarrow> (error + unit) \<times> world" where
  "saveConfig cfg w =
     (if config_writable w then (Inr (), w\<lparr>config_file := Some cfg\<rparr>)
      else (Inl WriteFailed, w))"

definition fetchJSON :: "request \<Rightarrow> world \<Rightarrow> (error + json) \<times> world" where
  "fetchJSON rq w =
     (case fetch rq w of
        (Inl e, w1) \<Rightarrow> (Inl e, w1)
      | (Inr response, w1) \<Rightarrow>
          if \<not> ok response
          then (Inl (HttpError (resp_status response) (resp_status_text response)), w1)
          else (case resp_body response of
                  None \<Rightarrow> (Inl SyntaxError, w1)
                | Some j \<Rightarrow> (Inr j, w1)))"

definition simkl_request :: "config \<Rightarrow> request" where
  "simkl_request cfg =
     \<lparr>r_url = simkl_url, r_method = None,
      r_headers = no_headers
        \<lparr>h_content_type := Some ''application/json'',
         h_authorization := Some (bearer (Some (simkl_access_token cfg))),
         h_simkl_api_key := Some (simkl_client_id cfg)\<rparr>,
      r_body = None\<rparr>"

definition getSimklWatched :: "config \<Rightarrow> world \<Rightarrow> (error + json) \<times> world" where
  "getSimklWatched cfg w = fetchJSON (simkl_request cfg) w"

text \<open>\<^verbatim>\<open>sync.mjs\<close> lines 85-108 (the same code is \<^verbatim>\<open>sync-auto.mjs\<close> lines 88-111).\<close>

definition refresh_request :: "config \<Rightarrow> request" where
  "refresh_request cfg =
     \<lparr>r_url = token_url, r_method = Some ''POST'',
      r_headers = no_headers\<lparr>h_content_type := Some ''application/json''\<rparr>,
      r_body = Some (RefreshBody
        \<lparr>rf_refresh_token = refresh_token_of (trakt_tokens cfg),
         rf_client_id = trakt_client_id cfg,
         rf_client_secret = trakt_client_secret cfg,
         rf_redirect_uri = ''urn:ietf:wg:oauth:2.0:oob'',
         rf_grant_type = ''refresh_token''\<rparr>)\<rparr>"

definition refreshTraktToken :: "config \<Rightarrow> world \<Rightarrow> (error + unit) \<times> config \<times> world" where
  "refreshTraktToken cfg w =
     (case fetch (refresh_request cfg) w of
        (Inl e, w1) \<Rightarrow> (Inl e, cfg, w1)
      | (Inr response, w1) \<Rightarrow>
          if ok response
          then (case resp_body response of
                  None \<Rightarrow> (Inl SyntaxError, cfg, w1)
                | Some j \<Rightarrow>
                    (case saveConfig (cfg\<lparr>trakt_tokens := j\<rparr>) w1 of
                       (Inl e, w2) \<Rightarrow> (Inl e, cfg\<lparr>trakt_tokens := j\<rparr>, w2)
                     | (Inr u, w2) \<Rightarrow> (Inr (), cfg\<lparr>trakt_tokens := j\<rparr>, w2)))
          else (Inl RefreshFailed, cfg, w1))"


text \<open>
  \<^verbatim>\<open>sync.mjs\<close> lines 64-83 (the same code is \<^verbatim>\<open>sync-auto.mjs\<close> lines 66-86):
  \<^verbatim>\<open>{ ...defaultOptions, ...options }\<close> is the default headers with the method and the
  body of \<^verbatim>\<open>options\<close>.
\<close>

definition default_headers :: "config \<Rightarrow> headers" where
  "default_headers cfg =
     no_headers
       \<lparr>h_content_type := Some ''application/json'',
        h_authorization := Some (bearer (access_token_of (trakt_tokens cfg))),
        h_trakt_api_version := Some ''2'',
        h_trakt_api_key := Some (trakt_client_id cfg)\<rparr>"

definition merged :: "string \<Rightarrow> headers \<Rightarrow> options \<Rightarrow> request" where
  "merged url hs opts =
     \<lparr>r_url = url, r_method = o_method opts, r_headers = hs, r_body = o_body opts\<rparr>"

definition traktRequest ::
    "string \<Rightarrow> options \<Rightarrow> config \<Rightarrow> world \<Rightarrow> (error + response) \<times> config \<times> world" where
  "traktRequest url opts cfg w =
     (case fetch (merged url (default_headers cfg) opts) w of
        (Inl e, w1) \<Rightarrow> (Inl e, cfg, w1)
      | (Inr response, w1) \<Rightarrow>
          if resp_status response = 401
          then (case refreshTraktToken cfg w1 of
                  (Inl e, cfg2, w2) \<Rightarrow> (Inl e, cfg2, w2)
                | (Inr u, cfg2, w2) \<Rightarrow>
                    (case fetch (merged url
                                  ((default_headers cfg)
                                     \<lparr>h_authorization :=
                                        Some (bearer (access_token_of (trakt_tokens cfg2)))\<rparr>)
                                  opts) w2 of
                       (r, w3) \<Rightarrow> (r, cfg2, w3)))
          else (Inr response, cfg, w1))"

definition no_options :: options where
  "no_options = \<lparr>o_method = None, o_body = None\<rparr>"

definition initializeTrakt :: "config \<Rightarrow> world \<Rightarrow> (error + unit) \<times> config \<times> world" where
  "initializeTrakt cfg w =
     (case traktRequest settings_url no_options cfg w of
        (Inl e, cfg1, w1) \<Rightarrow> (Inl e, cfg1, w1)
      | (Inr response, cfg1, w1) \<Rightarrow>
          if ok response then (Inr (), cfg1, w1) else (Inl ConnectionTestFailed, cfg1, w1))"

text \<open>
  \<^verbatim>\<open>sync.mjs\<close> lines 127-206, the body of the \<^verbatim>\<open>try\<close> block: the payload is posted
  whatever it holds, and a response that is not ok is printed only.
\<close>

definition sync_try :: "config \<Rightarrow> world \<Rightarrow> (error + outcome) \<times> config \<times> world" where
  "sync_try cfg w =
     (case getSimklWatched cfg w of
        (Inl e, w1) \<Rightarrow> (Inl e, cfg, w1)
      | (Inr watched, w1) \<Rightarrow>
          (case initializeTrakt cfg w1 of
             (Inl e, cfg2, w2) \<Rightarrow> (Inl e, cfg2, w2)
           | (Inr u, cfg2, w2) \<Rightarrow>
               (let traktObject = build_trakt_object (watched_of watched) in
                case traktRequest history_url
                       \<lparr>o_method = Some ''POST'', o_body = Some (PayloadBody traktObject)\<rparr>
                       cfg2 w2 of
                  (Inl e, cfg3, w3) \<Rightarrow> (Inl e, cfg3, w3)
                | (Inr response, cfg3, w3) \<Rightarrow>
                    if ok response
                    then (case resp_body response of
                            None \<Rightarrow> (Inl SyntaxError, cfg3, w3)
                          | Some result \<Rightarrow>
                              (Inr (Completed (movies_added_of result)
                                              (episodes_added_of result)), cfg3, w3))
                    else (Inr (SubmitRejected (resp_status response)
                                              (resp_status_text response)), cfg3, w3))))"

text \<open>
  \<^verbatim>\<open>sync.mjs\<close> lines 120-211: the exit code of the process, what the run reports, and the
  world it leaves. \<^verbatim>\<open>process.exit(1)\<close> is called when no configuration loads and in the
  \<^verbatim>\<open>catch\<close> block; a run that returns from \<^verbatim>\<open>sync\<close> ends with code 0.
\<close>

definition sync :: "world \<Rightarrow> nat \<times> (error + outcome) \<times> world" where
  "sync w =
     (case loadConfig w of
        None \<Rightarrow> (1, Inl ConfigMissing, w)
      | Some cfg \<Rightarrow>
          (case sync_try cfg w of
             (Inl e, cfg1, w1) \<Rightarrow> (1, Inl e, w1)
           | (Inr out, cfg1, w1) \<Rightarrow> (0, Inr out, w1)))"

section \<open>The runner of sync-auto.mjs\<close>

text \<open>\<^verbatim>\<open>sync-auto.mjs\<close> lines 255-277. \<^verbatim>\<open>logs.push\<close> is a function on arrays only.\<close>

definition logSyncResult :: "log_entry \<Rightarrow> world \<Rightarrow> world" where
  "logSyncResult logEntry w =
     (let logs = (case log_file w of
                    Unreadable \<Rightarrow> JsonArray []
                  | NotJson \<Rightarrow> JsonArray []
                  | parsed \<Rightarrow> parsed)
      in case logs of
           JsonArray es \<Rightarrow>
             (let pushed = es @ [logEntry];
                  kept = (if length pushed > 100
                          then drop (length pushed - 100) pushed else pushed)
              in if log_writable w then w\<lparr>log_file := JsonArray kept\<rparr> else w)
         | _ \<Rightarrow> w)"

definition error_entry :: "world \<Rightarrow> log_error \<Rightarrow> log_entry" where
  "error_entry w e =
     \<lparr>le_timestamp = clock w, le_status = ''error'', le_movies_added = None,
      le_episodes_added = None, le_error = Some e\<rparr>"

definition success_entry :: "world \<Rightarrow> json \<Rightarrow> log_entry" where
  "success_entry w result =
     \<lparr>le_timestamp = clock w, le_status = ''success'',
      le_movies_added = Some (movies_added_of result),
      le_episodes_added = Some (episodes_added_of result), le_error = None\<rparr>"

text \<open>\<^verbatim>\<open>sync-auto.mjs\<close> lines 130-241, the body of the \<^verbatim>\<open>try\<close> block.\<close>

definition autoSync_try :: "config \<Rightarrow> world \<Rightarrow> (error + outcome) \<times> config \<times> world" where
  "autoSync_try cfg w =
     (case getSimklWatched cfg w of
        (Inl e, w1) \<Rightarrow> (Inl e, cfg, w1)
      | (Inr watched, w1) \<Rightarrow>
          (case initializeTrakt cfg w1 of
             (Inl e, cfg2, w2) \<Rightarrow> (Inl e, cfg2, w2)
           | (Inr u, cfg2, w2) \<Rightarrow>
               (let traktObject = auto_build_trakt_object (watched_of watched) in
                if length (t_movies traktObject) = 0 \<and> length (t_shows traktObject) = 0
                then (Inr NothingToSync, cfg2, w2)
                else
                  (case traktRequest history_url
                          \<lparr>o_method = Some ''POST'', o_body = Some (PayloadBody traktObject)\<rparr>
                          cfg2 w2 of
                     (Inl e, cfg3, w3) \<Rightarrow> (Inl e, cfg3, w3)
                   | (Inr response, cfg3, w3) \<Rightarrow>
                       if ok response
                       then (case resp_body response of
                               None \<Rightarrow> (Inl SyntaxError, cfg3, w3)
                             | Some result \<Rightarrow>
                                 (Inr (Completed (movies_added_of result)
                                                 (episodes_added_of result)), cfg3,
                                  logSyncResult (success_entry w3 result) w3))
                       else (Inl (SyncFailed (resp_status response)), cfg3,
                             logSyncResult
                               (error_entry w3 (StatusLine (resp_status response)
                                                           (resp_status_text response)))
                               w3)))))"

text \<open>\<^verbatim>\<open>sync-auto.mjs\<close> lines 123-253.\<close>

definition autoSync :: "world \<Rightarrow> nat \<times> (error + outcome) \<times> world" where
  "autoSync w =
     (case loadConfig w of
        None \<Rightarrow> (1, Inl ConfigMissing, w)
      | Some cfg \<Rightarrow>
          (case autoSync_try cfg w of
             (Inl e, cfg1, w1) \<Rightarrow> (1, Inl e, logSyncResult (error_entry w1 (Message e)) w1)
           | (Inr out, cfg1, w1) \<Rightarrow> (0, Inr out, w1)))"

section \<open>Vocabulary of the statements and example inputs\<close>

text \<open>The elements of an optional collection: none when the collection is missing.\<close>

definition or_empty :: "'a list option \<Rightarrow> 'a list" where
  "or_empty xo = (case xo of None \<Rightarrow> [] | Some xs \<Rightarrow> xs)"

text \<open>The snapshot of the specification's first example, with a second, unwatched movie.\<close>

definition ex_movies :: snapshot where
  "ex_movies = \<lparr>watched_movies = Some
         [\<lparr>movie_last_watched_at = Some ''2024-01-01T00:00:00Z'',
           movie_movie = \<lparr>media_ids = \<lparr>imdb = Some ''tt1'', tmdb = Some 1\<rparr>\<rparr>\<rparr>,
          \<lparr>movie_last_watched_at = None,
           movie_movie = \<lparr>media_ids = \<lparr>imdb = Some ''tt2'', tmdb = Some 2\<rparr>\<rparr>\<rparr>],
       watched_shows = None, watched_anime = None\<rparr>"

text \<open>
  A show with a season of two episodes, the first without a timestamp of its own, and a
  second season without episodes.
\<close>

definition ex_episode :: episode where
  "ex_episode = \<lparr>episode_number = 1, episode_last_watched_at = None\<rparr>"

definition ex_season :: season where
  "ex_season =
     \<lparr>season_number = 1,
      season_episodes = Some
        [ex_episode,
         \<lparr>episode_number = 2, episode_last_watched_at = Some ''2024-01-15T00:00:00Z''\<rparr>]\<rparr>"

definition ex_show :: show_entry where
  "ex_show =
     \<lparr>show_last_watched_at = Some ''2024-02-02T00:00:00Z'',
      show_show = \<lparr>media_ids = \<lparr>imdb = Some ''tt7'', tmdb = Some 7\<rparr>\<rparr>,
      show_seasons = Some [ex_season, \<lparr>season_number = 2, season_episodes = Some []\<rparr>]\<rparr>"

definition ex_shows :: snapshot where
  "ex_shows = \<lparr>watched_movies = None, watched_shows = Some [ex_show], watched_anime = None\<rparr>"

text \<open>An entry with a timestamp whose seasons have no episodes.\<close>

definition ex_empty_show :: show_entry where
  "ex_empty_show =
     \<lparr>show_last_watched_at = Some ''2024-03-03T00:00:00Z'',
      show_show = \<lparr>media_ids = \<lparr>imdb = Some ''tt9'', tmdb = Some 9\<rparr>\<rparr>,
      show_seasons = Some [\<lparr>season_number = 1, season_episodes = Some []\<rparr>,
                           \<lparr>season_number = 2, season_episodes = None\<rparr>]\<rparr>"

text \<open>An entry with two seasons of one episode each.\<close>

definition ex_two_seasons :: show_entry where
  "ex_two_seasons =
     \<lparr>show_last_watched_at = Some ''2024-04-04T00:00:00Z'',
      show_show = \<lparr>media_ids = \<lparr>imdb = Some ''tt5'', tmdb = Some 5\<rparr>\<rparr>,
      show_seasons = Some
        [\<lparr>season_number = 1,
          season_episodes = Some [\<lparr>episode_number = 1, episode_last_watched_at = None\<rparr>]\<rparr>,
         \<lparr>season_number = 2,
          season_episodes = Some [\<lparr>episode_number = 7, episode_last_watched_at = None\<rparr>]\<rparr>]\<rparr>"

text \<open>
  A configuration, a token object as the token endpoint returns it, a response with a
  given status and body, and a world with a given script of replies, a configuration
  file and no log file yet.
\<close>

definition ex_config :: config where
  "ex_config =
     \<lparr>simkl_client_id = ''simkl-id'', trakt_client_id = ''trakt-id'',
      trakt_client_secret = ''trakt-secret'', simkl_access_token = ''simkl-token'',
      trakt_tokens = TokensJson
        \<lparr>access_token = Some ''old-access'', refresh_token = Some ''old-refresh'',
         token_rest = []\<rparr>\<rparr>"


definition ex_resp :: "nat \<Rightarrow> json option \<Rightarrow> response" where
  "ex_resp n b = \<lparr>resp_status = n, resp_status_text = '''', resp_body = b\<rparr>"

definition ex_world :: "reply list \<Rightarrow> world" where
  "ex_world rs =
     \<lparr>replies = rs, sent = [], config_file = Some ex_config, config_writable = True,
      log_file = Unreadable, log_writable = True, clock = ''2024-05-05T00:00:00.000Z''\<rparr>"

text \<open>A snapshot in which nothing has a watch timestamp.\<close>

definition ex_unwatched :: snapshot where
  "ex_unwatched =
     \<lparr>watched_movies = Some
        [\<lparr>movie_last_watched_at = None,
          movie_movie = \<lparr>media_ids = \<lparr>imdb = Some ''tt2'', tmdb = Some 2\<rparr>\<rparr>\<rparr>],
      watched_shows = Some [], watched_anime = None\<rparr>"

text \<open>
  A movie whose timestamp is the empty string, and a show with an episode whose timestamp
  is the empty string.
\<close>

definition ex_blank_movie :: snapshot where
  "ex_blank_movie =
     \<lparr>watched_movies = Some
        [\<lparr>movie_last_watched_at = Some '''',
          movie_movie = \<lparr>media_ids = \<lparr>imdb = Some ''tt3'', tmdb = Some 3\<rparr>\<rparr>\<rparr>],
      watched_shows = None, watched_anime = None\<rparr>"


section \<open>Properties of the normalizer\<close>

lemma foldl_push_movie:
  "foldl push_movie t ms =
     t\<lparr>t_movies := t_movies t @
        map (\<lambda>m. \<lparr>tm_watched_at = movie_last_watched_at m,
                   tm_ids = \<lparr>imdb = imdb (media_ids (movie_movie m)),
                             tmdb = tmdb (media_ids (movie_movie m))\<rparr>\<rparr>)
            (filter (\<lambda>m. truthy (movie_last_watched_at m)) ms)\<rparr>"
  by (induction ms arbitrary: t) (simp_all add: push_movie_def)

lemma foldl_push_show:
  "foldl push_show t es =
     t\<lparr>t_shows := t_shows t @
        map (\<lambda>e. \<lparr>ts_watched_at = show_last_watched_at e,
                   ts_ids = \<lparr>imdb = imdb (media_ids (show_show e)),
                             tmdb = tmdb (media_ids (show_show e))\<rparr>,
                   ts_seasons = show_seasons_of e\<rparr>)
            (filter (\<lambda>e. truthy (show_last_watched_at e) \<and> show_seasons_of e \<noteq> []) es)\<rparr>"
  by (induction es arbitrary: t) (simp_all add: push_show_def Let_def)

lemma anime_seasons_of_eq: "anime_seasons_of e = show_seasons_of e"
  by (simp add: anime_seasons_of_def show_seasons_of_def)

lemma push_anime_eq: "push_anime t e = push_show t e"
  by (simp add: push_anime_def push_show_def anime_seasons_of_eq)

lemma foldl_auto_push_anime:
  "foldl auto_push_anime t es =
     t\<lparr>t_shows := t_shows t @
        map (\<lambda>e. \<lparr>ts_watched_at = show_last_watched_at e,
                   ts_ids = \<lparr>imdb = imdb (media_ids (show_show e)),
                             tmdb = tmdb (media_ids (show_show e))\<rparr>,
                   ts_seasons = auto_anime_seasons_of e\<rparr>)
            (filter (\<lambda>e. truthy (show_last_watched_at e) \<and> auto_anime_seasons_of e \<noteq> []) es)\<rparr>"
  by (induction es arbitrary: t) (simp_all add: auto_push_anime_def Let_def)

lemma or_empty_simps [simp]: "or_empty None = []" "or_empty (Some xs) = xs"
  by (simp_all add: or_empty_def)

lemma show_seasons_of_char:
  "show_seasons_of e =
     map (\<lambda>sn. \<lparr>tse_number = season_number sn,
                 tse_episodes =
                   map (\<lambda>ep. \<lparr>te_number = episode_number ep,
                               te_watched_at = (if truthy (episode_last_watched_at ep)
                                                then episode_last_watched_at ep
                                                else show_last_watched_at e)\<rparr>)
                       (or_empty (season_episodes sn))\<rparr>)
       (filter (\<lambda>sn. or_empty (season_episodes sn) \<noteq> []) (or_empty (show_seasons e)))"
  by (auto simp: show_seasons_of_def js_or_def or_empty_def filter_map comp_def
      split: option.splits intro!: filter_cong)

lemma t_shows_foldl_push_movie: "t_shows (foldl push_movie t ms) = t_shows t"
  by (simp add: foldl_push_movie)

lemma foldl_push_anime: "foldl push_anime t es = foldl push_show t es"
  by (induction es arbitrary: t) (simp_all add: push_anime_eq)

lemma t_shows_build:
  "t_shows (build_trakt_object watched) =
     map (\<lambda>e. \<lparr>ts_watched_at = show_last_watched_at e,
                ts_ids = \<lparr>imdb = imdb (media_ids (show_show e)),
                          tmdb = tmdb (media_ids (show_show e))\<rparr>,
                ts_seasons = show_seasons_of e\<rparr>)
       (filter (\<lambda>e. truthy (show_last_watched_at e) \<and> show_seasons_of e \<noteq> [])
          (or_empty (watched_shows watched) @ or_empty (watched_anime watched)))"
  by (simp add: build_trakt_object_def process_anime_def process_shows_def process_movies_def or_empty_def
      foldl_push_anime foldl_push_show foldl_push_movie split: option.splits)

lemma t_shows_auto_build:
  "t_shows (auto_build_trakt_object watched) =
     map (\<lambda>e. \<lparr>ts_watched_at = show_last_watched_at e,
                ts_ids = \<lparr>imdb = imdb (media_ids (show_show e)),
                          tmdb = tmdb (media_ids (show_show e))\<rparr>,
                ts_seasons = show_seasons_of e\<rparr>)
       (filter (\<lambda>e. truthy (show_last_watched_at e) \<and> show_seasons_of e \<noteq> [])
          (or_empty (watched_shows watched))) @
     map (\<lambda>e. \<lparr>ts_watched_at = show_last_watched_at e,
                ts_ids = \<lparr>imdb = imdb (media_ids (show_show e)),
                          tmdb = tmdb (media_ids (show_show e))\<rparr>,
                ts_seasons = auto_anime_seasons_of e\<rparr>)
       (filter (\<lambda>e. truthy (show_last_watched_at e) \<and> auto_anime_seasons_of e \<noteq> [])
          (or_empty (watched_anime watched)))"
  by (simp add: auto_build_trakt_object_def auto_process_anime_def process_shows_def process_movies_def or_empty_def
      foldl_auto_push_anime foldl_push_show foldl_push_movie split: option.splits)



lemma auto_anime_seasons_of_char:
  "auto_anime_seasons_of e =
     (if concat (map (\<lambda>sn. or_empty (season_episodes sn)) (or_empty (show_seasons e))) = [] then []
      else map (\<lambda>sn. \<lparr>tse_number = season_number sn,
                 tse_episodes =
                   map (\<lambda>ep. \<lparr>te_number = episode_number ep,
                               te_watched_at = (if truthy (episode_last_watched_at ep)
                                                then episode_last_watched_at ep
                                                else show_last_watched_at e)\<rparr>)
                       (concat (map (\<lambda>sn. or_empty (season_episodes sn)) (or_empty (show_seasons e))))\<rparr>)
            (or_empty (show_seasons e)))"
proof (cases "show_seasons e")
  case None
  then show ?thesis by (simp add: auto_anime_seasons_of_def)
next
  case (Some ss)
  have eq: "concat (map (\<lambda>season. case season_episodes season of None \<Rightarrow> []
                | Some es \<Rightarrow> map (\<lambda>episode. \<lparr>te_number = episode_number episode,
                         te_watched_at = js_or (episode_last_watched_at episode) (show_last_watched_at e)\<rparr>) es) ss)
      = map (\<lambda>ep. \<lparr>te_number = episode_number ep,
                               te_watched_at = (if truthy (episode_last_watched_at ep)
                                                then episode_last_watched_at ep
                                                else show_last_watched_at e)\<rparr>)
                       (concat (map (\<lambda>sn. or_empty (season_episodes sn)) ss))" for ss :: "season list"
    by (induction ss) (auto simp: js_or_def or_empty_def split: option.splits)
  show ?thesis
    unfolding auto_anime_seasons_of_def Some option.case eq
    by (simp add: filter_empty_conv)
qed






lemma t_movies_foldl_push_show: "t_movies (foldl push_show t es) = t_movies t"
  by (simp add: foldl_push_show)

lemma t_movies_foldl_push_anime: "t_movies (foldl push_anime t es) = t_movies t"
  by (induction es arbitrary: t) (simp_all add: push_anime_def Let_def)

lemma t_movies_build:
  "t_movies (build_trakt_object watched) =
     map (\<lambda>m. \<lparr>tm_watched_at = movie_last_watched_at m,
                tm_ids = \<lparr>imdb = imdb (media_ids (movie_movie m)),
                          tmdb = tmdb (media_ids (movie_movie m))\<rparr>\<rparr>)
       (filter (\<lambda>m. truthy (movie_last_watched_at m))
          (case watched_movies watched of None \<Rightarrow> [] | Some ms \<Rightarrow> ms))"
  by (simp add: build_trakt_object_def process_anime_def process_shows_def process_movies_def
      t_movies_foldl_push_show t_movies_foldl_push_anime foldl_push_movie split: option.splits)

text \<open>
  Claim C8, as the code has it. In \<^verbatim>\<open>sync.mjs\<close> the movies of the payload are the source
  movies whose \<^verbatim>\<open>last_watched_at\<close> passes the code's test (\<^verbatim>\<open>!movie.last_watched_at\<close> is
  false: the timestamp is there and is not the empty string), in the source's order, each
  emitted as \<^verbatim>\<open>{watched_at: last_watched_at, ids: {imdb, tmdb}}\<close>. So every emitted movie
  comes from a source entry with such a timestamp, and the payload has at most as many
  movies as the snapshot.
\<close>

theorem movies_emitted:
  "t_movies (build_trakt_object watched) =
     map (\<lambda>m. \<lparr>tm_watched_at = movie_last_watched_at m,
                tm_ids = \<lparr>imdb = imdb (media_ids (movie_movie m)),
                          tmdb = tmdb (media_ids (movie_movie m))\<rparr>\<rparr>)
       (filter (\<lambda>m. truthy (movie_last_watched_at m))
          (case watched_movies watched of None \<Rightarrow> [] | Some ms \<Rightarrow> ms))
   \<and> (\<forall>om \<in> set (t_movies (build_trakt_object watched)).
        \<exists>m \<in> set (case watched_movies watched of None \<Rightarrow> [] | Some ms \<Rightarrow> ms).
          truthy (movie_last_watched_at m) \<and>
          om = \<lparr>tm_watched_at = movie_last_watched_at m,
                tm_ids = \<lparr>imdb = imdb (media_ids (movie_movie m)),
                          tmdb = tmdb (media_ids (movie_movie m))\<rparr>\<rparr>)
   \<and> length (t_movies (build_trakt_object watched))
        \<le> length (case watched_movies watched of None \<Rightarrow> [] | Some ms \<Rightarrow> ms)"
proof (intro conjI)
  show "t_movies (build_trakt_object watched) =
     map (\<lambda>m. \<lparr>tm_watched_at = movie_last_watched_at m,
                tm_ids = \<lparr>imdb = imdb (media_ids (movie_movie m)),
                          tmdb = tmdb (media_ids (movie_movie m))\<rparr>\<rparr>)
       (filter (\<lambda>m. truthy (movie_last_watched_at m))
          (case watched_movies watched of None \<Rightarrow> [] | Some ms \<Rightarrow> ms))"
    by (rule t_movies_build)
  show "\<forall>om \<in> set (t_movies (build_trakt_object watched)).
        \<exists>m \<in> set (case watched_movies watched of None \<Rightarrow> [] | Some ms \<Rightarrow> ms).
          truthy (movie_last_watched_at m) \<and>
          om = \<lparr>tm_watched_at = movie_last_watched_at m,
                tm_ids = \<lparr>imdb = imdb (media_ids (movie_movie m)),
                          tmdb = tmdb (media_ids (movie_movie m))\<rparr>\<rparr>"
    unfolding t_movies_build by auto
  show "length (t_movies (build_trakt_object watched))
        \<le> length (case watched_movies watched of None \<Rightarrow> [] | Some ms \<Rightarrow> ms)"
    unfolding t_movies_build by simp
qed



theorem movies_emitted_witness:
  "t_movies (build_trakt_object ex_movies) =
     [\<lparr>tm_watched_at = Some ''2024-01-01T00:00:00Z'',
       tm_ids = \<lparr>imdb = Some ''tt1'', tmdb = Some 1\<rparr>\<rparr>]"
proof -
  have "t_movies (build_trakt_object ex_movies) =
     map (\<lambda>m. \<lparr>tm_watched_at = movie_last_watched_at m,
                tm_ids = \<lparr>imdb = imdb (media_ids (movie_movie m)),
                          tmdb = tmdb (media_ids (movie_movie m))\<rparr>\<rparr>)
       (filter (\<lambda>m. truthy (movie_last_watched_at m))
          (case watched_movies ex_movies of None \<Rightarrow> [] | Some ms \<Rightarrow> ms))"
    using movies_emitted [of ex_movies] by (rule conjunct1)
  then show ?thesis by (simp add: ex_movies_def truthy_def)
qed

text \<open>
  Claim C8 as stated fails: a movie whose \<^verbatim>\<open>last_watched_at\<close> is there, as the empty
  string, is excluded from the payload.
\<close>

theorem blank_movie_not_emitted:
  "map movie_last_watched_at (or_empty (watched_movies ex_blank_movie)) = [Some '''']
   \<and> t_movies (build_trakt_object ex_blank_movie) = []"
  by (simp add: ex_blank_movie_def build_trakt_object_def process_movies_def process_shows_def
      process_anime_def push_movie_def truthy_def)




text \<open>
  Claim C6. In \<^verbatim>\<open>sync.mjs\<close> every show of the payload has at least one season and every
  emitted season has at least one episode; the seasons of an entry (show or anime) whose
  episode collection is missing or empty do not count: the emitted seasons are those of
  the entry without them. An entry all of whose seasons are so is not pushed: the payload
  under construction stays as it is, and nothing is raised or reported. The shows of
  the payload are as many as the entries with a timestamp and a season with an episode.
  The payload of \<^verbatim>\<open>sync-auto.mjs\<close> has no empty show or season either, and its anime
  callback does not push such an entry.
\<close>

theorem empty_seasons_dropped:
  "(\<forall>s \<in> set (t_shows (build_trakt_object watched)).
      ts_seasons s \<noteq> [] \<and> (\<forall>se \<in> set (ts_seasons s). tse_episodes se \<noteq> []))
   \<and> show_seasons_of e =
       show_seasons_of (e\<lparr>show_seasons :=
         Some (filter (\<lambda>sn. or_empty (season_episodes sn) \<noteq> []) (or_empty (show_seasons e)))\<rparr>)
   \<and> anime_seasons_of e =
       anime_seasons_of (e\<lparr>show_seasons :=
         Some (filter (\<lambda>sn. or_empty (season_episodes sn) \<noteq> []) (or_empty (show_seasons e)))\<rparr>)
   \<and> length (show_seasons_of e) =
       length (filter (\<lambda>sn. or_empty (season_episodes sn) \<noteq> []) (or_empty (show_seasons e)))
   \<and> ((\<forall>sn \<in> set (or_empty (show_seasons e)). or_empty (season_episodes sn) = []) \<longrightarrow>
        push_show t e = t \<and> push_anime t e = t \<and> auto_push_anime t e = t)
   \<and> (\<forall>s \<in> set (t_shows (auto_build_trakt_object watched)).
        ts_seasons s \<noteq> [] \<and> (\<forall>se \<in> set (ts_seasons s). tse_episodes se \<noteq> []))
   \<and> length (t_shows (build_trakt_object watched)) =
       length (filter (\<lambda>e. truthy (show_last_watched_at e) \<and>
                 (\<exists>sn \<in> set (or_empty (show_seasons e)). or_empty (season_episodes sn) \<noteq> []))
               (or_empty (watched_shows watched) @ or_empty (watched_anime watched)))"
proof (intro conjI)
  show "\<forall>s \<in> set (t_shows (build_trakt_object watched)).
      ts_seasons s \<noteq> [] \<and> (\<forall>se \<in> set (ts_seasons s). tse_episodes se \<noteq> [])"
    unfolding t_shows_build by (auto simp: show_seasons_of_char)
  show c: "show_seasons_of e =
       show_seasons_of (e\<lparr>show_seasons :=
         Some (filter (\<lambda>sn. or_empty (season_episodes sn) \<noteq> []) (or_empty (show_seasons e)))\<rparr>)"
    by (simp add: show_seasons_of_char)
  then show "anime_seasons_of e =
       anime_seasons_of (e\<lparr>show_seasons :=
         Some (filter (\<lambda>sn. or_empty (season_episodes sn) \<noteq> []) (or_empty (show_seasons e)))\<rparr>)"
    by (simp only: anime_seasons_of_eq)
  show "length (show_seasons_of e) =
       length (filter (\<lambda>sn. or_empty (season_episodes sn) \<noteq> []) (or_empty (show_seasons e)))"
    by (simp add: show_seasons_of_char)
  show "(\<forall>sn \<in> set (or_empty (show_seasons e)). or_empty (season_episodes sn) = []) \<longrightarrow>
        push_show t e = t \<and> push_anime t e = t \<and> auto_push_anime t e = t"
  proof
    assume a: "\<forall>sn \<in> set (or_empty (show_seasons e)). or_empty (season_episodes sn) = []"
    then have "show_seasons_of e = []"
      by (simp add: show_seasons_of_char filter_empty_conv)
    moreover from a have "auto_anime_seasons_of e = []"
      by (simp add: auto_anime_seasons_of_char)
    ultimately show "push_show t e = t \<and> push_anime t e = t \<and> auto_push_anime t e = t"
      by (simp add: push_anime_eq push_show_def auto_push_anime_def)
  qed
  show "\<forall>s \<in> set (t_shows (auto_build_trakt_object watched)).
      ts_seasons s \<noteq> [] \<and> (\<forall>se \<in> set (ts_seasons s). tse_episodes se \<noteq> [])"
    unfolding t_shows_auto_build
    by (auto simp: show_seasons_of_char auto_anime_seasons_of_char split: if_splits)
  have "show_seasons_of e \<noteq> [] \<longleftrightarrow>
        (\<exists>sn \<in> set (or_empty (show_seasons e)). or_empty (season_episodes sn) \<noteq> [])" for e
    by (simp add: show_seasons_of_char filter_empty_conv)
  then show "length (t_shows (build_trakt_object watched)) =
       length (filter (\<lambda>e. truthy (show_last_watched_at e) \<and>
                 (\<exists>sn \<in> set (or_empty (show_seasons e)). or_empty (season_episodes sn) \<noteq> []))
               (or_empty (watched_shows watched) @ or_empty (watched_anime watched)))"
    unfolding t_shows_build by simp
qed

theorem empty_seasons_dropped_witness:
  "truthy (show_last_watched_at ex_empty_show) \<and>
   push_show \<lparr>t_movies = [], t_shows = []\<rparr> ex_empty_show = \<lparr>t_movies = [], t_shows = []\<rparr> \<and>
   push_anime \<lparr>t_movies = [], t_shows = []\<rparr> ex_empty_show = \<lparr>t_movies = [], t_shows = []\<rparr> \<and>
   auto_push_anime \<lparr>t_movies = [], t_shows = []\<rparr> ex_empty_show = \<lparr>t_movies = [], t_shows = []\<rparr>"
proof -
  have h: "\<forall>sn \<in> set (or_empty (show_seasons ex_empty_show)). or_empty (season_episodes sn) = []"
    by (simp add: ex_empty_show_def)
  have t: "truthy (show_last_watched_at ex_empty_show)"
    by (simp add: ex_empty_show_def truthy_def)
  from empty_seasons_dropped [of ex_shows ex_empty_show "\<lparr>t_movies = [], t_shows = []\<rparr>"]
  have "(\<forall>sn \<in> set (or_empty (show_seasons ex_empty_show)). or_empty (season_episodes sn) = []) \<longrightarrow>
        push_show \<lparr>t_movies = [], t_shows = []\<rparr> ex_empty_show = \<lparr>t_movies = [], t_shows = []\<rparr> \<and>
        push_anime \<lparr>t_movies = [], t_shows = []\<rparr> ex_empty_show = \<lparr>t_movies = [], t_shows = []\<rparr> \<and>
        auto_push_anime \<lparr>t_movies = [], t_shows = []\<rparr> ex_empty_show =
          \<lparr>t_movies = [], t_shows = []\<rparr>"
    by blast
  with h t show ?thesis by blast
qed

text \<open>
  Claim C10. An empty string as \<^verbatim>\<open>last_watched_at\<close> is handled as a missing one. A movie,
  a show or an anime entry with the empty string (or nothing) as top-level timestamp is
  not pushed, in \<^verbatim>\<open>sync.mjs\<close> and by the anime callback of \<^verbatim>\<open>sync-auto.mjs\<close>. An episode with the empty string as timestamp gives the same seasons as the
  episode without a timestamp, and is emitted with the timestamp of its entry.
\<close>

theorem empty_string_as_absent:
  "push_movie t (m\<lparr>movie_last_watched_at := Some []\<rparr>) = t
   \<and> push_movie t (m\<lparr>movie_last_watched_at := None\<rparr>) = t
   \<and> push_show t (e\<lparr>show_last_watched_at := Some []\<rparr>) = t
   \<and> push_show t (e\<lparr>show_last_watched_at := None\<rparr>) = t
   \<and> push_anime t (e\<lparr>show_last_watched_at := Some []\<rparr>) = t
   \<and> push_anime t (e\<lparr>show_last_watched_at := None\<rparr>) = t
   \<and> auto_push_anime t (e\<lparr>show_last_watched_at := Some []\<rparr>) = t
   \<and> auto_push_anime t (e\<lparr>show_last_watched_at := None\<rparr>) = t
   \<and> show_seasons_of (e\<lparr>show_seasons := Some (pre @
         [sn\<lparr>season_episodes := Some (a @ [ep\<lparr>episode_last_watched_at := Some []\<rparr>] @ b)\<rparr>] @ post)\<rparr>)
     = show_seasons_of (e\<lparr>show_seasons := Some (pre @
         [sn\<lparr>season_episodes := Some (a @ [ep\<lparr>episode_last_watched_at := None\<rparr>] @ b)\<rparr>] @ post)\<rparr>)
   \<and> anime_seasons_of (e\<lparr>show_seasons := Some (pre @
         [sn\<lparr>season_episodes := Some (a @ [ep\<lparr>episode_last_watched_at := Some []\<rparr>] @ b)\<rparr>] @ post)\<rparr>)
     = anime_seasons_of (e\<lparr>show_seasons := Some (pre @
         [sn\<lparr>season_episodes := Some (a @ [ep\<lparr>episode_last_watched_at := None\<rparr>] @ b)\<rparr>] @ post)\<rparr>)
   \<and> show_seasons_of (e\<lparr>show_seasons := Some
         [sn\<lparr>season_episodes := Some [ep\<lparr>episode_last_watched_at := Some []\<rparr>]\<rparr>]\<rparr>)
     = [\<lparr>tse_number = season_number sn,
         tse_episodes = [\<lparr>te_number = episode_number ep,
                          te_watched_at = show_last_watched_at e\<rparr>]\<rparr>]
   \<and> anime_seasons_of (e\<lparr>show_seasons := Some
         [sn\<lparr>season_episodes := Some [ep\<lparr>episode_last_watched_at := Some []\<rparr>]\<rparr>]\<rparr>)
     = [\<lparr>tse_number = season_number sn,
         tse_episodes = [\<lparr>te_number = episode_number ep,
                          te_watched_at = show_last_watched_at e\<rparr>]\<rparr>]"
proof (intro conjI)
  show "push_movie t (m\<lparr>movie_last_watched_at := Some []\<rparr>) = t"
    and "push_movie t (m\<lparr>movie_last_watched_at := None\<rparr>) = t"
    by (simp_all add: push_movie_def truthy_def)
  show "push_show t (e\<lparr>show_last_watched_at := Some []\<rparr>) = t"
    and "push_show t (e\<lparr>show_last_watched_at := None\<rparr>) = t"
    by (simp_all add: push_show_def truthy_def)
  show "push_anime t (e\<lparr>show_last_watched_at := Some []\<rparr>) = t"
    and "push_anime t (e\<lparr>show_last_watched_at := None\<rparr>) = t"
    by (simp_all add: push_anime_def truthy_def)
  show "auto_push_anime t (e\<lparr>show_last_watched_at := Some []\<rparr>) = t"
    and "auto_push_anime t (e\<lparr>show_last_watched_at := None\<rparr>) = t"
    by (simp_all add: auto_push_anime_def truthy_def)
  show c: "show_seasons_of (e\<lparr>show_seasons := Some (pre @
         [sn\<lparr>season_episodes := Some (a @ [ep\<lparr>episode_last_watched_at := Some []\<rparr>] @ b)\<rparr>] @ post)\<rparr>)
     = show_seasons_of (e\<lparr>show_seasons := Some (pre @
         [sn\<lparr>season_episodes := Some (a @ [ep\<lparr>episode_last_watched_at := None\<rparr>] @ b)\<rparr>] @ post)\<rparr>)"
    by (simp add: show_seasons_of_char truthy_def)
  show "anime_seasons_of (e\<lparr>show_seasons := Some (pre @
         [sn\<lparr>season_episodes := Some (a @ [ep\<lparr>episode_last_watched_at := Some []\<rparr>] @ b)\<rparr>] @ post)\<rparr>)
     = anime_seasons_of (e\<lparr>show_seasons := Some (pre @
         [sn\<lparr>season_episodes := Some (a @ [ep\<lparr>episode_last_watched_at := None\<rparr>] @ b)\<rparr>] @ post)\<rparr>)"
    by (simp add: anime_seasons_of_eq show_seasons_of_char truthy_def)
  show "show_seasons_of (e\<lparr>show_seasons := Some
         [sn\<lparr>season_episodes := Some [ep\<lparr>episode_last_watched_at := Some []\<rparr>]\<rparr>]\<rparr>)
     = [\<lparr>tse_number = season_number sn,
         tse_episodes = [\<lparr>te_number = episode_number ep,
                          te_watched_at = show_last_watched_at e\<rparr>]\<rparr>]"
    by (simp add: show_seasons_of_char truthy_def)
  show "anime_seasons_of (e\<lparr>show_seasons := Some
         [sn\<lparr>season_episodes := Some [ep\<lparr>episode_last_watched_at := Some []\<rparr>]\<rparr>]\<rparr>)
     = [\<lparr>tse_number = season_number sn,
         tse_episodes = [\<lparr>te_number = episode_number ep,
                          te_watched_at = show_last_watched_at e\<rparr>]\<rparr>]"
    by (simp add: anime_seasons_of_eq show_seasons_of_char truthy_def)
qed

text \<open>
  In \<^verbatim>\<open>sync.mjs\<close> an entry gives the same shows of the payload whether it is listed
  under \<^verbatim>\<open>shows\<close> or under \<^verbatim>\<open>anime\<close>.
\<close>

lemma sync_anime_folding_same:
  "t_shows (build_trakt_object
      \<lparr>watched_movies = None, watched_shows = Some [e], watched_anime = None\<rparr>) =
   t_shows (build_trakt_object
      \<lparr>watched_movies = None, watched_shows = None, watched_anime = Some [e]\<rparr>)"
  by (simp add: t_shows_build)

text \<open>
  Claim C1. In \<^verbatim>\<open>sync-auto.mjs\<close> the anime folding is not the show folding: the entry
  \<open>ex_two_seasons\<close>, listed once as a show and once as an anime, gives two different
  shows of the payload. As a show, each season keeps its own episode; as an anime, each
  season holds the episodes of both seasons.
\<close>

theorem auto_anime_folding_differs:
  "t_shows (auto_build_trakt_object
      \<lparr>watched_movies = None, watched_shows = Some [ex_two_seasons],
       watched_anime = Some [ex_two_seasons]\<rparr>) =
     [\<lparr>ts_watched_at = Some ''2024-04-04T00:00:00Z'',
       ts_ids = \<lparr>imdb = Some ''tt5'', tmdb = Some 5\<rparr>,
       ts_seasons =
         [\<lparr>tse_number = 1,
           tse_episodes = [\<lparr>te_number = 1, te_watched_at = Some ''2024-04-04T00:00:00Z''\<rparr>]\<rparr>,
          \<lparr>tse_number = 2,
           tse_episodes = [\<lparr>te_number = 7, te_watched_at = Some ''2024-04-04T00:00:00Z''\<rparr>]\<rparr>]\<rparr>,
      \<lparr>ts_watched_at = Some ''2024-04-04T00:00:00Z'',
       ts_ids = \<lparr>imdb = Some ''tt5'', tmdb = Some 5\<rparr>,
       ts_seasons =
         [\<lparr>tse_number = 1,
           tse_episodes = [\<lparr>te_number = 1, te_watched_at = Some ''2024-04-04T00:00:00Z''\<rparr>,
                           \<lparr>te_number = 7, te_watched_at = Some ''2024-04-04T00:00:00Z''\<rparr>]\<rparr>,
          \<lparr>tse_number = 2,
           tse_episodes = [\<lparr>te_number = 1, te_watched_at = Some ''2024-04-04T00:00:00Z''\<rparr>,
                           \<lparr>te_number = 7, te_watched_at = Some ''2024-04-04T00:00:00Z''\<rparr>]\<rparr>]\<rparr>]"
  by (simp add: auto_build_trakt_object_def auto_process_anime_def process_shows_def
      process_movies_def push_show_def auto_push_anime_def show_seasons_of_def
      auto_anime_seasons_of_def ex_two_seasons_def truthy_def js_or_def)

section \<open>Properties of the authenticated client and the token refresher\<close>


lemma fetch_eq:
  "fetch rq w =
     ((case replies w of Resp r # rest \<Rightarrow> Inr r | _ \<Rightarrow> Inl NetworkError),
      w\<lparr>replies := tl (replies w), sent := sent w @ [rq]\<rparr>)"
  by (cases w) (simp add: fetch_def split: list.splits reply.splits)




text \<open>
  A call of \<^verbatim>\<open>traktRequest\<close> for an address other than the token endpoint adds at
  most one request to the token endpoint.
\<close>

lemma traktRequest_refreshes_at_most_once:
  assumes "url \<noteq> token_url"
  shows "length (filter (\<lambda>rq. r_url rq = token_url) (sent (snd (snd (traktRequest url opts cfg w)))))
           \<le> Suc (length (filter (\<lambda>rq. r_url rq = token_url) (sent w)))"
  using assms
  by (simp add: traktRequest_def refreshTraktToken_def saveConfig_def fetch_eq merged_def
      refresh_request_def case_prod_beta
      split: sum.splits option.splits list.splits reply.splits)










section \<open>Properties of the runs\<close>

lemma ex_unwatched_payload:
  "build_trakt_object ex_unwatched = \<lparr>t_movies = [], t_shows = []\<rparr>"
  "auto_build_trakt_object ex_unwatched = \<lparr>t_movies = [], t_shows = []\<rparr>"
  by (simp_all add: build_trakt_object_def auto_build_trakt_object_def process_movies_def
      process_shows_def process_anime_def auto_process_anime_def push_movie_def
      ex_unwatched_def truthy_def)

text \<open>
  In \<^verbatim>\<open>sync-auto.mjs\<close> an empty payload ends the run after the connection test: the
  outcome is ``nothing to sync'' and the world is the one the connection test left.
\<close>

lemma autoSync_try_noop:
  assumes "getSimklWatched cfg w = (Inr j, w1)"
    and "initializeTrakt cfg w1 = (Inr (), cfg2, w2)"
    and "t_movies (auto_build_trakt_object (watched_of j)) = []"
    and "t_shows (auto_build_trakt_object (watched_of j)) = []"
  shows "autoSync_try cfg w = (Inr NothingToSync, cfg2, w2)"
  using assms by (simp add: autoSync_try_def)

lemma autoSync_skips_empty_payload:
  "(case autoSync (ex_world [Resp (ex_resp 200 (Some (WatchedJson ex_unwatched))),
                             Resp (ex_resp 200 (Some OtherJson)),
                             Resp (ex_resp 200 (Some (ResultJson \<lparr>added = None\<rparr>)))]) of
      (code, report, w') \<Rightarrow>
        code = 0 \<and> report = Inr NothingToSync \<and>
        map r_url (sent w') = [simkl_url, settings_url])"
  by (simp add: autoSync_def loadConfig_def autoSync_try_def getSimklWatched_def fetchJSON_def
      initializeTrakt_def traktRequest_def fetch_eq ex_world_def ex_resp_def ok_def
      watched_of_def ex_unwatched_payload merged_def simkl_request_def no_options_def)

text \<open>
  Claim C3. \<^verbatim>\<open>sync.mjs\<close> has no check for an empty payload: with a snapshot in which
  nothing has a watch timestamp, the run posts the empty payload to the history endpoint
  and reports a completed synchronisation of 0 movies and 0 episodes.
\<close>

theorem sync_posts_empty_payload:
  "(case sync (ex_world [Resp (ex_resp 200 (Some (WatchedJson ex_unwatched))),
                         Resp (ex_resp 200 (Some OtherJson)),
                         Resp (ex_resp 200 (Some (ResultJson \<lparr>added = None\<rparr>)))]) of
      (code, report, w') \<Rightarrow>
        code = 0 \<and> report = Inr (Completed 0 0) \<and>
        map r_url (sent w') = [simkl_url, settings_url, history_url] \<and>
        map r_body (sent w') =
          [None, None, Some (PayloadBody \<lparr>t_movies = [], t_shows = []\<rparr>)])"
  by (simp add: sync_def loadConfig_def sync_try_def getSimklWatched_def fetchJSON_def
      initializeTrakt_def traktRequest_def fetch_eq ex_world_def ex_resp_def ok_def
      watched_of_def ex_unwatched_payload movies_added_of_def episodes_added_of_def
      added_of_def merged_def simkl_request_def no_options_def)

text \<open>
  In \<^verbatim>\<open>sync-auto.mjs\<close> the exit code is 0 exactly when the run reports an outcome, and
  a rejected submission is never an outcome: it is raised as an error.
\<close>

lemma autoSync_exit_code:
  "fst (autoSync w) = (case fst (snd (autoSync w)) of Inl e \<Rightarrow> 1 | Inr out \<Rightarrow> 0)"
  by (simp add: autoSync_def split: option.splits prod.splits sum.splits)

lemma autoSync_never_reports_rejection:
  "fst (snd (autoSync w)) \<noteq> Inr (SubmitRejected n t)"
  by (auto simp: autoSync_def autoSync_try_def Let_def
      split: option.splits prod.splits sum.splits if_splits)

lemma autoSync_exit_code_after_rejected_submit:
  "(case autoSync (ex_world [Resp (ex_resp 200 (Some (WatchedJson ex_movies))),
                             Resp (ex_resp 200 (Some OtherJson)),
                             Resp (ex_resp 500 None)]) of
      (code, report, w') \<Rightarrow> code = 1 \<and> report = Inl (SyncFailed 500))"
proof -
  have "t_movies (auto_build_trakt_object ex_movies) \<noteq> []"
    by (simp add: auto_build_trakt_object_def process_movies_def
      process_shows_def auto_process_anime_def push_movie_def ex_movies_def truthy_def)
  then show ?thesis
  by (simp add: autoSync_def loadConfig_def autoSync_try_def getSimklWatched_def fetchJSON_def
      initializeTrakt_def traktRequest_def fetch_eq ex_world_def ex_resp_def ok_def
      watched_of_def merged_def simkl_request_def no_options_def Let_def)
qed

text \<open>
  Claim C4. In \<^verbatim>\<open>sync.mjs\<close> a submission that the history endpoint rejects (here with
  status 500) is printed only: the run returns from \<^verbatim>\<open>sync\<close> and the process exits
  with code 0.
\<close>

theorem sync_exit_code_after_rejected_submit:
  "(case sync (ex_world [Resp (ex_resp 200 (Some (WatchedJson ex_movies))),
                         Resp (ex_resp 200 (Some OtherJson)),
                         Resp (ex_resp 500 None)]) of
      (code, report, w') \<Rightarrow>
        code = 0 \<and> report = Inr (SubmitRejected 500 []) \<and>
        map r_url (sent w') = [simkl_url, settings_url, history_url])"
  by (simp add: sync_def loadConfig_def sync_try_def getSimklWatched_def fetchJSON_def
      initializeTrakt_def traktRequest_def fetch_eq ex_world_def ex_resp_def ok_def
      watched_of_def merged_def simkl_request_def no_options_def)

section \<open>Properties of the result logger\<close>

text \<open>
  When the log file cannot be read, is not JSON or holds an array, and the write succeeds,
  the new log is the old entries (none in the first two cases) followed by the new entry,
  cut to its last 100 entries. A failed write leaves the world as it was. In every case
  \<^verbatim>\<open>logSyncResult\<close> returns and changes nothing but the log file.
\<close>

lemma logSyncResult_appends:
  assumes "log_writable w"
    and "old = (case log_file w of JsonArray es \<Rightarrow> es | _ \<Rightarrow> [])"
    and "log_file w \<noteq> JsonOther"
  shows "logSyncResult logEntry w =
           w\<lparr>log_file := JsonArray (drop (length (old @ [logEntry]) - 100) (old @ [logEntry]))\<rparr>"
  using assms by (cases "log_file w") (simp_all add: logSyncResult_def Let_def)

lemma logSyncResult_bounded:
  "log_file (logSyncResult logEntry w) = JsonArray es \<Longrightarrow> log_writable w \<Longrightarrow>
   length es \<le> 100 \<and> last es = logEntry"
  by (cases "log_file w") (auto simp: logSyncResult_def Let_def split: if_splits)

lemma logSyncResult_not_writable:
  "\<not> log_writable w \<Longrightarrow> logSyncResult logEntry w = w"
  by (cases "log_file w") (simp_all add: logSyncResult_def Let_def)

lemma logSyncResult_only_log:
  "logSyncResult logEntry w = w\<lparr>log_file := log_file (logSyncResult logEntry w)\<rparr>"
  by (cases "log_file w") (simp_all add: logSyncResult_def Let_def)

text \<open>
  What a run of \<^verbatim>\<open>sync-auto.mjs\<close> reports and its exit code do not depend on the log
  file nor on whether it can be written.
\<close>

lemma fetch_log:
  "fetch rq (w\<lparr>log_file := lf, log_writable := b\<rparr>) =
     (fst (fetch rq w), (snd (fetch rq w))\<lparr>log_file := lf, log_writable := b\<rparr>)"
  by (simp add: fetch_def split: list.splits reply.splits)

lemma getSimklWatched_log:
  "getSimklWatched cfg (w\<lparr>log_file := lf, log_writable := b\<rparr>) =
     (fst (getSimklWatched cfg w),
      (snd (getSimklWatched cfg w))\<lparr>log_file := lf, log_writable := b\<rparr>)"
  by (simp add: getSimklWatched_def fetchJSON_def fetch_log case_prod_beta
      split: sum.splits option.splits)

lemma refreshTraktToken_log:
  "refreshTraktToken cfg (w\<lparr>log_file := lf, log_writable := b\<rparr>) =
     (fst (refreshTraktToken cfg w), fst (snd (refreshTraktToken cfg w)),
      (snd (snd (refreshTraktToken cfg w)))\<lparr>log_file := lf, log_writable := b\<rparr>)"
  by (simp add: refreshTraktToken_def saveConfig_def fetch_log case_prod_beta
      split: sum.splits option.splits)

lemma traktRequest_log:
  "traktRequest url opts cfg (w\<lparr>log_file := lf, log_writable := b\<rparr>) =
     (fst (traktRequest url opts cfg w), fst (snd (traktRequest url opts cfg w)),
      (snd (snd (traktRequest url opts cfg w)))\<lparr>log_file := lf, log_writable := b\<rparr>)"
  by (simp add: traktRequest_def fetch_log refreshTraktToken_log case_prod_beta
      split: sum.splits)

lemma initializeTrakt_log:
  "initializeTrakt cfg (w\<lparr>log_file := lf, log_writable := b\<rparr>) =
     (fst (initializeTrakt cfg w), fst (snd (initializeTrakt cfg w)),
      (snd (snd (initializeTrakt cfg w)))\<lparr>log_file := lf, log_writable := b\<rparr>)"
  by (simp add: initializeTrakt_def traktRequest_log case_prod_beta split: sum.splits)

lemma autoSync_try_log:
  "fst (autoSync_try cfg (w\<lparr>log_file := lf, log_writable := b\<rparr>)) = fst (autoSync_try cfg w)"
  by (simp add: autoSync_try_def getSimklWatched_log initializeTrakt_log traktRequest_log Let_def
      case_prod_beta split: sum.splits option.splits)

lemma autoSync_report_independent_of_log:
  "fst (autoSync (w\<lparr>log_file := lf, log_writable := b\<rparr>)) = fst (autoSync w) \<and>
   fst (snd (autoSync (w\<lparr>log_file := lf, log_writable := b\<rparr>))) = fst (snd (autoSync w))"
proof (cases "config_file w")
  case None
  then show ?thesis by (simp add: autoSync_def loadConfig_def)
next
  case (Some cfg)
  with autoSync_try_log [where cfg = cfg and w = w and lf = lf and b = b] show ?thesis
    by (simp add: autoSync_def loadConfig_def case_prod_beta split: sum.splits)
qed

text \<open>
  Claim C9. A log file that holds JSON other than an array (\<^verbatim>\<open>{}\<close>, \<^verbatim>\<open>null\<close>, a
  string) is not treated as empty: \<^verbatim>\<open>logs.push\<close> raises, the outer \<^verbatim>\<open>catch\<close> swallows
  the error, and the entry is neither appended nor the file rewritten.
\<close>

theorem logSyncResult_non_array:
  "logSyncResult logEntry (w\<lparr>log_file := JsonOther\<rparr>) = w\<lparr>log_file := JsonOther\<rparr>"
  by (simp add: logSyncResult_def)

end
